theory Spec2Isabelle
  imports Main
begin

section \<open>The header \<open>bonsoir_windows/windows/bonsoir_broadcast.h\<close>\<close>

text \<open>
  The repository's source is one C++ header.  It holds declarations only, so the program
  is modelled as what the header is: its text, line by line, the declarations that text
  spells, and the rules of C++ that give those declarations their meaning (exception
  specifications, overriding, function types).
\<close>

subsection \<open>The text\<close>

text \<open>
  The lines of the file, in order and with their indentation.  The double quote of the
  include directive is written \<open>CHR 0x22\<close>.
\<close>

definition bonsoir_broadcast_h :: "string list" where
  "bonsoir_broadcast_h =
    [''#pragma once'',
     '''',
     ''#include '' @ [CHR 0x22] @ ''bonsoir_action.h'' @ [CHR 0x22],
     '''',
     ''using namespace flutter;'',
     '''',
     ''namespace bonsoir_windows {'',
     ''  class BonsoirBroadcast : public BonsoirAction {'',
     ''   public:'',
     ''    BonsoirService service;'',
     '''',
     ''    BonsoirBroadcast('',
     ''      int _id,'',
     ''      bool _printLogs,'',
     ''      flutter::BinaryMessenger *_binaryMessenger,'',
     ''      std::function<void()> onDispose,'',
     ''      BonsoirService _service'',
     ''    );'',
     '''',
     ''    void start() override;'',
     '''',
     ''    void dispose() override;'',
     '''',
     ''   private:'',
     ''    DNS_SERVICE_REGISTER_REQUEST registerRequest{};'',
     ''  };'',
     '''',
     ''  void registerCallback(DWORD status, PVOID context, PDNS_SERVICE_INSTANCE instance);'',
     ''}  // namespace bonsoir_windows'']"

text \<open>
  The characters of a file whose lines are \<open>ls\<close>: a line feed stands between two lines
  and none follows the last one, which is how the header is stored.
\<close>

definition file_bytes :: "string list \<Rightarrow> string" where
  "file_bytes ls =
     (case ls of [] \<Rightarrow> [] | l # rest \<Rightarrow> l @ concat (map (\<lambda>x. CHR 0x0A # x) rest))"

subsection \<open>Tokens\<close>

text \<open>
  An identifier, keyword or number is a maximal run of letters, digits and underscores;
  every other character that is not a blank is a token of its own; \<open>//\<close> starts a
  comment that runs to the end of the line.
\<close>

datatype token = Ident string | Punct char

definition is_ident_char :: "char \<Rightarrow> bool" where
  "is_ident_char c =
     (c \<in> set ''abcdefghijklmnopqrstuvwxyzABCDEFGHIJKLMNOPQRSTUVWXYZ0123456789_'')"

definition flush :: "string \<Rightarrow> token list" where
  "flush w = (if w = [] then [] else [Ident (rev w)])"

fun scan :: "string \<Rightarrow> string \<Rightarrow> token list" where
  "scan w [] = flush w"
| "scan w (c # cs) =
     (if is_ident_char c then scan (c # w) cs
      else if c = CHR ''/'' \<and> take 1 cs = ''/'' then flush w
      else if c = CHR '' '' then flush w @ scan [] cs
      else flush w @ Punct c # scan [] cs)"

definition lex_line :: "string \<Rightarrow> token list" where
  "lex_line l = scan [] l"

definition lex_file :: "string list \<Rightarrow> token list" where
  "lex_file ls = concat (map lex_line ls)"

fun identifiers :: "token list \<Rightarrow> string list" where
  "identifiers [] = []"
| "identifiers (Ident s # ts) = s # identifiers ts"
| "identifiers (Punct c # ts) = identifiers ts"

definition occurrences :: "string \<Rightarrow> string list \<Rightarrow> nat" where
  "occurrences w ls = length (filter (\<lambda>s. s = w) (identifiers (lex_file ls)))"

subsection \<open>Declarations\<close>

text \<open>
  The declarations a header of this shape can hold.  A type is kept as it is written.
  A function has no return type when it is a constructor, records whether it is declared
  \<open>override\<close> and whether it is declared \<open>noexcept\<close>, and carries its body when the
  file gives one.  A class body is the sequence of its access labels, data members and
  member functions, in the order of the file.
\<close>

datatype access = Public | Protected | Private

datatype initializer = NoInit | BraceEmpty

datatype function_decl = FunctionDecl
  (fn_ret: "string option")
  (fn_name: string)
  (fn_params: "(string \<times> string) list")
  (fn_override: bool)
  (fn_noexcept: bool)
  (fn_body: "token list option")

datatype member =
    AccessLabel access
  | FieldDecl string string initializer
  | Method function_decl

datatype class_decl = ClassDecl
  (c_name: string)
  (c_base: "(access \<times> string) option")
  (c_members: "member list")

datatype decl =
    PragmaOnce
  | Include string
  | UsingNamespace string
  | Namespace string "decl list"
  | Class class_decl
  | Function function_decl

text \<open>Lines 12 to 18: the constructor.\<close>

definition BonsoirBroadcast_ctor :: function_decl where
  "BonsoirBroadcast_ctor = FunctionDecl None ''BonsoirBroadcast''
     [(''int'', ''_id''),
      (''bool'', ''_printLogs''),
      (''flutter::BinaryMessenger *'', ''_binaryMessenger''),
      (''std::function<void()>'', ''onDispose''),
      (''BonsoirService'', ''_service'')]
     False False None"

text \<open>Lines 20 and 22.\<close>

definition start_decl :: function_decl where
  "start_decl = FunctionDecl (Some ''void'') ''start'' [] True False None"

definition dispose_decl :: function_decl where
  "dispose_decl = FunctionDecl (Some ''void'') ''dispose'' [] True False None"

text \<open>Line 28.\<close>

definition registerCallback_decl :: function_decl where
  "registerCallback_decl = FunctionDecl (Some ''void'') ''registerCallback''
     [(''DWORD'', ''status''),
      (''PVOID'', ''context''),
      (''PDNS_SERVICE_INSTANCE'', ''instance'')]
     False False None"

text \<open>Lines 8 to 26: the class.\<close>

definition BonsoirBroadcast_class :: class_decl where
  "BonsoirBroadcast_class = ClassDecl ''BonsoirBroadcast'' (Some (Public, ''BonsoirAction''))
     [AccessLabel Public,
      FieldDecl ''BonsoirService'' ''service'' NoInit,
      Method BonsoirBroadcast_ctor,
      Method start_decl,
      Method dispose_decl,
      AccessLabel Private,
      FieldDecl ''DNS_SERVICE_REGISTER_REQUEST'' ''registerRequest'' BraceEmpty]"

text \<open>The whole file.\<close>

definition header_decls :: "decl list" where
  "header_decls =
     [PragmaOnce,
      Include ''bonsoir_action.h'',
      UsingNamespace ''flutter'',
      Namespace ''bonsoir_windows''
        [Class BonsoirBroadcast_class,
         Function registerCallback_decl]]"

subsection \<open>From declarations back to tokens\<close>

text \<open>
  Writing a declaration out again gives the tokens of its text.  The declarations above
  are the header's because they write out to exactly the tokens of \<open>bonsoir_broadcast_h\<close>
  (lemma \<open>header_decls_spell_the_text\<close>): a body, a further member or another class
  would each add tokens.
\<close>

definition access_keyword :: "access \<Rightarrow> string" where
  "access_keyword a =
     (case a of Public \<Rightarrow> ''public'' | Protected \<Rightarrow> ''protected'' | Private \<Rightarrow> ''private'')"

fun unparse_params :: "(string \<times> string) list \<Rightarrow> token list" where
  "unparse_params [] = []"
| "unparse_params [(t, n)] = lex_line t @ [Ident n]"
| "unparse_params ((t, n) # p # ps) =
     lex_line t @ [Ident n, Punct CHR '',''] @ unparse_params (p # ps)"

definition unparse_function :: "function_decl \<Rightarrow> token list" where
  "unparse_function f =
     (case fn_ret f of None \<Rightarrow> [] | Some t \<Rightarrow> lex_line t)
     @ [Ident (fn_name f), Punct CHR ''('']
     @ unparse_params (fn_params f)
     @ [Punct CHR '')'']
     @ (if fn_noexcept f then [Ident ''noexcept''] else [])
     @ (if fn_override f then [Ident ''override''] else [])
     @ (case fn_body f of
          None \<Rightarrow> [Punct CHR '';'']
        | Some b \<Rightarrow> [Punct CHR ''{''] @ b @ [Punct CHR ''}''])"

fun unparse_member :: "member \<Rightarrow> token list" where
  "unparse_member (AccessLabel a) = [Ident (access_keyword a), Punct CHR '':'']"
| "unparse_member (FieldDecl t n i) =
     lex_line t @ [Ident n]
     @ (case i of NoInit \<Rightarrow> [] | BraceEmpty \<Rightarrow> [Punct CHR ''{'', Punct CHR ''}''])
     @ [Punct CHR '';'']"
| "unparse_member (Method f) = unparse_function f"

definition unparse_class :: "class_decl \<Rightarrow> token list" where
  "unparse_class c =
     [Ident ''class'', Ident (c_name c)]
     @ (case c_base c of
          None \<Rightarrow> []
        | Some (a, b) \<Rightarrow> [Punct CHR '':'', Ident (access_keyword a), Ident b])
     @ [Punct CHR ''{'']
     @ concat (map unparse_member (c_members c))
     @ [Punct CHR ''}'', Punct CHR '';'']"

fun unparse_decl :: "decl \<Rightarrow> token list" where
  "unparse_decl PragmaOnce = [Punct CHR ''#'', Ident ''pragma'', Ident ''once'']"
| "unparse_decl (Include f) =
     [Punct CHR ''#'', Ident ''include'', Punct (CHR 0x22)] @ lex_line f @ [Punct (CHR 0x22)]"
| "unparse_decl (UsingNamespace n) =
     [Ident ''using'', Ident ''namespace'', Ident n, Punct CHR '';'']"
| "unparse_decl (Namespace n ds) =
     [Ident ''namespace'', Ident n, Punct CHR ''{'']
     @ concat (map unparse_decl ds)
     @ [Punct CHR ''}'']"
| "unparse_decl (Class c) = unparse_class c"
| "unparse_decl (Function f) = unparse_function f"

definition unparse :: "decl list \<Rightarrow> token list" where
  "unparse ds = concat (map unparse_decl ds)"

subsection \<open>What a file declares\<close>

fun classes_of :: "decl \<Rightarrow> class_decl list" where
  "classes_of (Namespace n ds) = concat (map classes_of ds)"
| "classes_of (Class c) = [c]"
| "classes_of d = []"

definition declared_classes :: "decl list \<Rightarrow> class_decl list" where
  "declared_classes ds = concat (map classes_of ds)"

fun methods_of :: "member list \<Rightarrow> function_decl list" where
  "methods_of [] = []"
| "methods_of (Method f # ms) = f # methods_of ms"
| "methods_of (m # ms) = methods_of ms"

text \<open>Every function a file introduces: the member functions of its classes and the
  functions at namespace scope.\<close>

fun functions_of :: "decl \<Rightarrow> function_decl list" where
  "functions_of (Namespace n ds) = concat (map functions_of ds)"
| "functions_of (Class c) = methods_of (c_members c)"
| "functions_of (Function f) = [f]"
| "functions_of d = []"

definition declared_functions :: "decl list \<Rightarrow> function_decl list" where
  "declared_functions ds = concat (map functions_of ds)"

text \<open>
  The data members of a class with the access each one has: members that precede the
  first label of a \<open>class\<close> are private.
\<close>

datatype data_member = DataMember
  (dm_access: access)
  (dm_type: string)
  (dm_name: string)
  (dm_init: initializer)

fun data_members_from :: "access \<Rightarrow> member list \<Rightarrow> data_member list" where
  "data_members_from a [] = []"
| "data_members_from a (AccessLabel b # ms) = data_members_from b ms"
| "data_members_from a (FieldDecl t n i # ms) = DataMember a t n i # data_members_from a ms"
| "data_members_from a (Method f # ms) = data_members_from a ms"

definition data_members :: "class_decl \<Rightarrow> data_member list" where
  "data_members c = data_members_from Private (c_members c)"

text \<open>The functions declared at namespace scope, each with the namespaces around it.\<close>

fun namespace_functions :: "string list \<Rightarrow> decl \<Rightarrow> (string list \<times> function_decl) list" where
  "namespace_functions p (Namespace n ds) = concat (map (namespace_functions (p @ [n])) ds)"
| "namespace_functions p (Function f) = [(p, f)]"
| "namespace_functions p d = []"

definition free_functions :: "decl list \<Rightarrow> (string list \<times> function_decl) list" where
  "free_functions ds = concat (map (namespace_functions []) ds)"




subsection \<open>The ways a declared interface can carry a status\<close>

text \<open>
  The Windows headers give a status code the type \<open>DWORD\<close> (what a completion callback
  of the DNS Service Discovery API receives) or one of the other status types below; the
  C++ library has \<open>std::error_code\<close> and its kin.  A type names a status type when one
  of these names is among its identifiers, so a pointer or reference to one counts too.
\<close>

definition status_type_names :: "string list" where
  "status_type_names =
     [''DWORD'', ''DNS_STATUS'', ''HRESULT'', ''LSTATUS'', ''NTSTATUS'', ''LONG'',
      ''error_code'', ''error_condition'', ''errc'', ''exception_ptr'']"

definition names_status_type :: "string \<Rightarrow> bool" where
  "names_status_type t =
     (filter (\<lambda>w. w \<in> set status_type_names) (identifiers (lex_line t)) \<noteq> [])"

text \<open>
  A declared interface can hand a status on in four ways: through a parameter whose type
  names a status type, through the value a function returns, through a data member whose
  type names a status type, and through an exception.  In C++ a function may throw
  unless it is declared \<open>noexcept\<close>.
\<close>

definition status_parameters :: "decl list \<Rightarrow> (string \<times> string \<times> string) list" where
  "status_parameters ds =
     concat (map (\<lambda>f. map (\<lambda>(t, n). (fn_name f, t, n))
                          (filter (\<lambda>(t, n). names_status_type t) (fn_params f)))
                 (declared_functions ds))"

definition value_returning :: "decl list \<Rightarrow> function_decl list" where
  "value_returning ds =
     filter (\<lambda>f. fn_ret f \<noteq> None \<and> fn_ret f \<noteq> Some ''void'') (declared_functions ds)"

definition status_fields :: "decl list \<Rightarrow> data_member list" where
  "status_fields ds =
     filter (\<lambda>m. names_status_type (dm_type m))
            (concat (map data_members (declared_classes ds)))"

definition potentially_throwing :: "function_decl \<Rightarrow> bool" where
  "potentially_throwing f = (\<not> fn_noexcept f)"

text \<open>
  Every such channel of the declarations \<open>ds\<close>: a parameter with its function and type,
  a function that returns a value, a data member with its type, a function that may
  throw.
\<close>

datatype channel =
    StatusParameter string string string
  | ReturnValue string
  | StatusField string string
  | Exception string

definition status_channels :: "decl list \<Rightarrow> channel list" where
  "status_channels ds =
     map (\<lambda>(f, t, n). StatusParameter f t n) (status_parameters ds)
     @ map (\<lambda>f. ReturnValue (fn_name f)) (value_returning ds)
     @ map (\<lambda>m. StatusField (dm_type m) (dm_name m)) (status_fields ds)
     @ map (\<lambda>f. Exception (fn_name f)) (filter potentially_throwing (declared_functions ds))"

subsection \<open>Synchronisation primitives\<close>


subsection \<open>Overriding and calls through the base class\<close>

text \<open>
  The header includes \<open>bonsoir_action.h\<close> for the base class \<open>BonsoirAction\<close>; that
  file is not part of the source, so the base class is a parameter: its name, the member
  functions that are virtual in it and its other member functions.
\<close>

datatype base_class = BaseClass
  (bc_name: string)
  (bc_virtual: "string list")
  (bc_nonvirtual: "string list")

text \<open>
  C++ accepts a class derived from \<open>b\<close> only when each member function it marks
  \<open>override\<close> overrides a virtual member function of \<open>b\<close>.
\<close>

definition overriders :: "class_decl \<Rightarrow> string list" where
  "overriders c = map fn_name (filter fn_override (methods_of (c_members c)))"

definition well_formed :: "base_class \<Rightarrow> class_decl \<Rightarrow> bool" where
  "well_formed b c =
     (map_option snd (c_base c) = Some (bc_name b)
      \<and> list_all (\<lambda>m. m \<in> set (bc_virtual b)) (overriders c))"

text \<open>
  The function that runs for a call \<open>p->m()\<close> where \<open>p\<close> has the static type of the
  base class \<open>b\<close> and points at an object whose class is \<open>c\<close>: a virtual function is
  looked up in the class of the object, any other one in the static type; \<open>None\<close> when
  \<open>b\<close> has no member \<open>m\<close> and the call does not compile.
\<close>

datatype target = Target string string

definition call_through_base :: "base_class \<Rightarrow> class_decl \<Rightarrow> string \<Rightarrow> target option" where
  "call_through_base b c m =
     (if m \<in> set (bc_virtual b) then
        (if m \<in> set (map fn_name (methods_of (c_members c)))
         then Some (Target (c_name c) m)
         else Some (Target (bc_name b) m))
      else if m \<in> set (bc_nonvirtual b) then Some (Target (bc_name b) m)
      else None)"

subsection \<open>Function types and the completion callback\<close>

datatype function_type = FunctionType (ft_ret: string) (ft_params: "string list")

definition type_of_function :: "function_decl \<Rightarrow> function_type option" where
  "type_of_function f =
     (case fn_ret f of
        None \<Rightarrow> None
      | Some r \<Rightarrow> Some (FunctionType r (map fst (fn_params f))))"

text \<open>
  Modelled from the spec: the type \<open>DNS_SERVICE_REGISTER_COMPLETE\<close> of the Windows DNS
  Service Discovery API, which no file of the repository declares.  The Windows SDK
  (\<open>windns.h\<close>) declares it as a function of a \<open>DWORD\<close> status, a \<open>PVOID\<close> query context
  and a \<open>PDNS_SERVICE_INSTANCE\<close> that returns nothing, and gives the field
  \<open>pRegisterCompletionCallback\<close> of the request the type of a pointer to it.
\<close>

definition DNS_SERVICE_REGISTER_COMPLETE :: function_type where
  "DNS_SERVICE_REGISTER_COMPLETE =
     FunctionType ''void'' [''DWORD'', ''PVOID'', ''PDNS_SERVICE_INSTANCE'']"

text \<open>
  A function can be stored in a field whose type is a pointer to the function type \<open>T\<close>
  when it is declared at namespace scope (a non-static member function has no such
  pointer) and its type is \<open>T\<close>.
\<close>

definition installable :: "function_type \<Rightarrow> decl list \<Rightarrow> string \<Rightarrow> bool" where
  "installable T ds n =
     (filter (\<lambda>(p, f). fn_name f = n \<and> type_of_function f = Some T) (free_functions ds) \<noteq> [])"

section \<open>Properties\<close>

lemmas header_text_defs =
  bonsoir_broadcast_h_def lex_file_def lex_line_def is_ident_char_def flush_def

lemmas header_decl_defs =
  header_decls_def BonsoirBroadcast_class_def BonsoirBroadcast_ctor_def start_decl_def
  dispose_decl_def registerCallback_decl_def

lemma header_tokens:
  "lex_file bonsoir_broadcast_h =
    [Punct CHR ''#'', Ident ''pragma'', Ident ''once'', Punct CHR ''#'',
     Ident ''include'', Punct (CHR 0x22), Ident ''bonsoir_action'',
     Punct CHR ''.'', Ident ''h'', Punct (CHR 0x22), Ident ''using'',
     Ident ''namespace'', Ident ''flutter'', Punct CHR '';'',
     Ident ''namespace'', Ident ''bonsoir_windows'', Punct CHR ''{'',
     Ident ''class'', Ident ''BonsoirBroadcast'', Punct CHR '':'',
     Ident ''public'', Ident ''BonsoirAction'', Punct CHR ''{'',
     Ident ''public'', Punct CHR '':'', Ident ''BonsoirService'',
     Ident ''service'', Punct CHR '';'', Ident ''BonsoirBroadcast'',
     Punct CHR ''('', Ident ''int'', Ident ''_id'', Punct CHR '','',
     Ident ''bool'', Ident ''_printLogs'', Punct CHR '','', Ident ''flutter'',
     Punct CHR '':'', Punct CHR '':'', Ident ''BinaryMessenger'',
     Punct CHR ''*'', Ident ''_binaryMessenger'', Punct CHR '','',
     Ident ''std'', Punct CHR '':'', Punct CHR '':'', Ident ''function'',
     Punct CHR ''<'', Ident ''void'', Punct CHR ''('', Punct CHR '')'',
     Punct CHR ''>'', Ident ''onDispose'', Punct CHR '','',
     Ident ''BonsoirService'', Ident ''_service'', Punct CHR '')'',
     Punct CHR '';'', Ident ''void'', Ident ''start'', Punct CHR ''('',
     Punct CHR '')'', Ident ''override'', Punct CHR '';'', Ident ''void'',
     Ident ''dispose'', Punct CHR ''('', Punct CHR '')'', Ident ''override'',
     Punct CHR '';'', Ident ''private'', Punct CHR '':'',
     Ident ''DNS_SERVICE_REGISTER_REQUEST'', Ident ''registerRequest'',
     Punct CHR ''{'', Punct CHR ''}'', Punct CHR '';'', Punct CHR ''}'',
     Punct CHR '';'', Ident ''void'', Ident ''registerCallback'',
     Punct CHR ''('', Ident ''DWORD'', Ident ''status'', Punct CHR '','',
     Ident ''PVOID'', Ident ''context'', Punct CHR '','',
     Ident ''PDNS_SERVICE_INSTANCE'', Ident ''instance'', Punct CHR '')'',
     Punct CHR '';'', Punct CHR ''}'']"
  by (simp add: header_text_defs)

lemma header_decls_spell_the_text:
  "unparse header_decls = lex_file bonsoir_broadcast_h"
  unfolding header_tokens
  by (simp add: unparse_def header_decl_defs unparse_class_def unparse_function_def
      access_keyword_def lex_line_def is_ident_char_def flush_def)

lemma header_identifiers:
  "identifiers (lex_file bonsoir_broadcast_h) =
    [''pragma'', ''once'', ''include'', ''bonsoir_action'', ''h'', ''using'', ''namespace'',
     ''flutter'', ''namespace'', ''bonsoir_windows'', ''class'', ''BonsoirBroadcast'',
     ''public'', ''BonsoirAction'', ''public'', ''BonsoirService'', ''service'',
     ''BonsoirBroadcast'', ''int'', ''_id'', ''bool'', ''_printLogs'', ''flutter'',
     ''BinaryMessenger'', ''_binaryMessenger'', ''std'', ''function'', ''void'',
     ''onDispose'', ''BonsoirService'', ''_service'', ''void'', ''start'', ''override'',
     ''void'', ''dispose'', ''override'', ''private'', ''DNS_SERVICE_REGISTER_REQUEST'',
     ''registerRequest'', ''void'', ''registerCallback'', ''DWORD'', ''status'', ''PVOID'',
     ''context'', ''PDNS_SERVICE_INSTANCE'', ''instance'']"
  unfolding header_tokens by simp

lemma header_classes: "declared_classes header_decls = [BonsoirBroadcast_class]"
  by (simp add: declared_classes_def header_decls_def)

lemma header_functions:
  "declared_functions header_decls =
     [BonsoirBroadcast_ctor, start_decl, dispose_decl, registerCallback_decl]"
  by (simp add: declared_functions_def header_decls_def BonsoirBroadcast_class_def)

lemma header_free_functions:
  "free_functions header_decls = [([''bonsoir_windows''], registerCallback_decl)]"
  by (simp add: free_functions_def header_decls_def)

lemma class_methods:
  "methods_of (c_members BonsoirBroadcast_class) =
     [BonsoirBroadcast_ctor, start_decl, dispose_decl]"
  by (simp add: BonsoirBroadcast_class_def)

lemma class_head:
  "c_name BonsoirBroadcast_class = ''BonsoirBroadcast''"
  "c_base BonsoirBroadcast_class = Some (Public, ''BonsoirAction'')"
  by (simp_all add: BonsoirBroadcast_class_def)

lemma class_data_members:
  "data_members BonsoirBroadcast_class =
     [DataMember Public ''BonsoirService'' ''service'' NoInit,
      DataMember Private ''DNS_SERVICE_REGISTER_REQUEST'' ''registerRequest'' BraceEmpty]"
  by (simp add: data_members_def BonsoirBroadcast_class_def)

text \<open>
  C1, as the source has it.  The state of \<open>BonsoirBroadcast\<close> includes a
  \<open>DNS_SERVICE_REGISTER_REQUEST\<close>: the class, the only one of the header, has exactly
  one data member of that type, \<open>registerRequest\<close>, and the type name stands in the
  text.  The operations the header declares for the class are its constructor, \<open>start\<close>
  and \<open>dispose\<close>; the name \<open>DnsServiceRegister\<close> occurs nowhere in the header.
\<close>

theorem BonsoirBroadcast_holds_register_request:
  "declared_classes header_decls = [BonsoirBroadcast_class]
   \<and> map dm_name (filter (\<lambda>m. dm_type m = ''DNS_SERVICE_REGISTER_REQUEST'')
                          (data_members BonsoirBroadcast_class)) = [''registerRequest'']
   \<and> occurrences ''DNS_SERVICE_REGISTER_REQUEST'' bonsoir_broadcast_h = 1
   \<and> map fn_name (methods_of (c_members BonsoirBroadcast_class))
       = [''BonsoirBroadcast'', ''start'', ''dispose'']
   \<and> occurrences ''DnsServiceRegister'' bonsoir_broadcast_h = 0"
proof -
  have members: "map dm_name (filter (\<lambda>m. dm_type m = ''DNS_SERVICE_REGISTER_REQUEST'')
                    (data_members BonsoirBroadcast_class)) = [''registerRequest'']"
    unfolding class_data_members by simp
  have operations: "map fn_name (methods_of (c_members BonsoirBroadcast_class))
                      = [''BonsoirBroadcast'', ''start'', ''dispose'']"
    unfolding class_methods
    by (simp add: BonsoirBroadcast_ctor_def start_decl_def dispose_decl_def)
  have request: "occurrences ''DNS_SERVICE_REGISTER_REQUEST'' bonsoir_broadcast_h = 1"
    unfolding occurrences_def header_identifiers by simp
  have register: "occurrences ''DnsServiceRegister'' bonsoir_broadcast_h = 0"
    unfolding occurrences_def header_identifiers by simp
  from header_classes members request operations register show ?thesis by blast
qed

text \<open>
  C1, as the claim states it, fails on the source: the header shows the declaration of
  the class, and of the two names only \<open>DNS_SERVICE_REGISTER_REQUEST\<close> appears in it.
\<close>

theorem DnsServiceRegister_is_not_in_the_header:
  "\<not> (0 < occurrences ''DNS_SERVICE_REGISTER_REQUEST'' bonsoir_broadcast_h
      \<and> 0 < occurrences ''DnsServiceRegister'' bonsoir_broadcast_h)"
  unfolding occurrences_def header_identifiers by simp

text \<open>
  C2, as the source has it.  In the declared interface an OS status code has one declared
  carrier, the parameter \<open>DWORD status\<close> of \<open>registerCallback(DWORD status, PVOID
  context, PDNS_SERVICE_INSTANCE instance)\<close>: no declared function returns a value (the
  constructor has no return type and \<open>start\<close>, \<open>dispose\<close> and \<open>registerCallback\<close>
  return \<open>void\<close>) and no data member is an error field (the data members are \<open>service\<close>
  and \<open>registerRequest\<close>).  The exception channel is open: none of the four functions
  is declared \<open>noexcept\<close>, so each may throw.  No function has a body, so the header does
  not say which registration outcome reaches \<open>registerCallback\<close>.
\<close>

theorem header_status_channels:
  "status_channels header_decls
     = [StatusParameter ''registerCallback'' ''DWORD'' ''status'',
        Exception ''BonsoirBroadcast'', Exception ''start'', Exception ''dispose'',
        Exception ''registerCallback'']
   \<and> map (\<lambda>f. (fn_name f, fn_ret f, fn_params f, fn_noexcept f, fn_body f))
         (declared_functions header_decls)
       = [(''BonsoirBroadcast'', None,
           [(''int'', ''_id''), (''bool'', ''_printLogs''),
            (''flutter::BinaryMessenger *'', ''_binaryMessenger''),
            (''std::function<void()>'', ''onDispose''), (''BonsoirService'', ''_service'')],
           False, None),
          (''start'', Some ''void'', [], False, None),
          (''dispose'', Some ''void'', [], False, None),
          (''registerCallback'', Some ''void'',
           [(''DWORD'', ''status''), (''PVOID'', ''context''),
            (''PDNS_SERVICE_INSTANCE'', ''instance'')],
           False, None)]
   \<and> map (\<lambda>m. (dm_type m, dm_name m)) (concat (map data_members (declared_classes header_decls)))
       = [(''BonsoirService'', ''service''),
          (''DNS_SERVICE_REGISTER_REQUEST'', ''registerRequest'')]
   \<and> occurrences ''noexcept'' bonsoir_broadcast_h = 0
   \<and> unparse header_decls = lex_file bonsoir_broadcast_h"
proof -
  have params: "status_parameters header_decls = [(''registerCallback'', ''DWORD'', ''status'')]"
    unfolding status_parameters_def header_functions
    by (simp add: names_status_type_def status_type_names_def lex_line_def is_ident_char_def
        flush_def BonsoirBroadcast_ctor_def start_decl_def dispose_decl_def
        registerCallback_decl_def)
  have returns: "value_returning header_decls = []"
    unfolding value_returning_def header_functions
    by (simp add: BonsoirBroadcast_ctor_def start_decl_def dispose_decl_def
        registerCallback_decl_def)
  have fields: "status_fields header_decls = []"
    unfolding status_fields_def header_classes
    by (simp add: class_data_members names_status_type_def status_type_names_def
        lex_line_def is_ident_char_def flush_def)
  have throwing: "filter potentially_throwing (declared_functions header_decls)
                    = [BonsoirBroadcast_ctor, start_decl, dispose_decl, registerCallback_decl]"
    unfolding header_functions
    by (simp add: potentially_throwing_def BonsoirBroadcast_ctor_def start_decl_def
        dispose_decl_def registerCallback_decl_def)
  have channels: "status_channels header_decls
     = [StatusParameter ''registerCallback'' ''DWORD'' ''status'',
        Exception ''BonsoirBroadcast'', Exception ''start'', Exception ''dispose'',
        Exception ''registerCallback'']"
    unfolding status_channels_def params returns fields throwing
    by (simp add: BonsoirBroadcast_ctor_def start_decl_def dispose_decl_def
        registerCallback_decl_def)
  have signatures: "map (\<lambda>f. (fn_name f, fn_ret f, fn_params f, fn_noexcept f, fn_body f))
         (declared_functions header_decls)
       = [(''BonsoirBroadcast'', None,
           [(''int'', ''_id''), (''bool'', ''_printLogs''),
            (''flutter::BinaryMessenger *'', ''_binaryMessenger''),
            (''std::function<void()>'', ''onDispose''), (''BonsoirService'', ''_service'')],
           False, None),
          (''start'', Some ''void'', [], False, None),
          (''dispose'', Some ''void'', [], False, None),
          (''registerCallback'', Some ''void'',
           [(''DWORD'', ''status''), (''PVOID'', ''context''),
            (''PDNS_SERVICE_INSTANCE'', ''instance'')],
           False, None)]"
    unfolding header_functions
    by (simp add: BonsoirBroadcast_ctor_def start_decl_def dispose_decl_def
        registerCallback_decl_def)
  have members: "map (\<lambda>m. (dm_type m, dm_name m))
                   (concat (map data_members (declared_classes header_decls)))
       = [(''BonsoirService'', ''service''),
          (''DNS_SERVICE_REGISTER_REQUEST'', ''registerRequest'')]"
    unfolding header_classes by (simp add: class_data_members)
  have spelled: "occurrences ''noexcept'' bonsoir_broadcast_h = 0"
    unfolding occurrences_def header_identifiers by simp
  from channels signatures members spelled header_decls_spell_the_text
  show ?thesis by blast
qed

text \<open>
  C2, as the claim states it, fails on the source: \<open>registerCallback\<close>'s parameter is
  not the only error channel of the declared interface.  \<open>start\<close> is declared without
  \<open>noexcept\<close>, so an exception can leave it.
\<close>

theorem start_may_throw:
  "Exception ''start'' \<in> set (status_channels header_decls)
   \<and> status_channels header_decls \<noteq> [StatusParameter ''registerCallback'' ''DWORD'' ''status'']"
proof -
  have "potentially_throwing start_decl"
    by (simp add: potentially_throwing_def start_decl_def)
  moreover have "fn_name start_decl = ''start''"
    by (simp add: start_decl_def)
  ultimately have "Exception ''start'' \<in> set (status_channels header_decls)"
    unfolding status_channels_def header_functions by force
  then show ?thesis by auto
qed

text \<open>
  C3: the header declares exactly one class, and its name is \<open>BonsoirBroadcast\<close>.
  The keyword \<open>class\<close> stands once in the text and \<open>struct\<close>, \<open>union\<close> and \<open>enum\<close>
  not at all; the declarations with that one class spell the text of the file.
\<close>

theorem header_declares_one_class:
  "map c_name (declared_classes header_decls) = [''BonsoirBroadcast'']
   \<and> occurrences ''class'' bonsoir_broadcast_h = 1
   \<and> occurrences ''struct'' bonsoir_broadcast_h = 0
   \<and> occurrences ''union'' bonsoir_broadcast_h = 0
   \<and> occurrences ''enum'' bonsoir_broadcast_h = 0
   \<and> unparse header_decls = lex_file bonsoir_broadcast_h"
proof -
  have "map c_name (declared_classes header_decls) = [''BonsoirBroadcast'']"
    unfolding header_classes by (simp add: BonsoirBroadcast_class_def)
  moreover have "occurrences ''class'' bonsoir_broadcast_h = 1"
    unfolding occurrences_def header_identifiers by simp
  moreover have "occurrences ''struct'' bonsoir_broadcast_h = 0"
    unfolding occurrences_def header_identifiers by simp
  moreover have "occurrences ''union'' bonsoir_broadcast_h = 0"
    unfolding occurrences_def header_identifiers by simp
  moreover have "occurrences ''enum'' bonsoir_broadcast_h = 0"
    unfolding occurrences_def header_identifiers by simp
  ultimately show ?thesis
    using header_decls_spell_the_text by blast
qed

text \<open>
  C4: the header is declaration-only.  The functions it introduces are the constructor of
  \<open>BonsoirBroadcast\<close>, \<open>start\<close>, \<open>dispose\<close> and \<open>registerCallback\<close>, and each is declared
  without a body; these declarations spell the text of the file.
\<close>

theorem header_is_declaration_only:
  "map (\<lambda>f. (fn_name f, fn_body f)) (declared_functions header_decls)
     = [(''BonsoirBroadcast'', None), (''start'', None), (''dispose'', None),
        (''registerCallback'', None)]
   \<and> unparse header_decls = lex_file bonsoir_broadcast_h"
  unfolding header_functions
  by (simp add: header_decls_spell_the_text BonsoirBroadcast_ctor_def start_decl_def
      dispose_decl_def registerCallback_decl_def)

text \<open>
  C5, as the source has it.  The class declares exactly two data members: the public
  \<open>service\<close> of type \<open>BonsoirService\<close> and the private \<open>registerRequest\<close> of type
  \<open>DNS_SERVICE_REGISTER_REQUEST\<close>.  The one callback of the header is
  \<open>registerCallback\<close>, a function declared at namespace scope and no data member, and
  \<open>BonsoirBroadcast\<close> is the only class.
\<close>

theorem header_data:
  "data_members BonsoirBroadcast_class =
     [DataMember Public ''BonsoirService'' ''service'' NoInit,
      DataMember Private ''DNS_SERVICE_REGISTER_REQUEST'' ''registerRequest'' BraceEmpty]
   \<and> map (\<lambda>(p, f). fn_name f) (free_functions header_decls) = [''registerCallback'']
   \<and> map c_name (declared_classes header_decls) = [''BonsoirBroadcast'']"
proof -
  have callbacks: "map (\<lambda>(p, f). fn_name f) (free_functions header_decls) = [''registerCallback'']"
    unfolding header_free_functions by (simp add: registerCallback_decl_def)
  have classes: "map c_name (declared_classes header_decls) = [''BonsoirBroadcast'']"
    unfolding header_classes by (simp add: BonsoirBroadcast_class_def)
  from class_data_members callbacks classes show ?thesis by simp
qed

text \<open>
  C5, as the claim states it, fails on the source: the request struct is not the only
  data the class declares, \<open>service\<close> is a data member too.
\<close>

theorem service_is_a_data_member:
  "map dm_name (data_members BonsoirBroadcast_class) \<noteq> [''registerRequest'']
   \<and> ''service'' \<in> set (map dm_name (data_members BonsoirBroadcast_class))"
  unfolding class_data_members by simp

text \<open>
  C6, as the source has it.  The header is 29 lines long.  Its last line, which closes the
  namespace, ends without a line feed, so the file holds 28 line feeds.
\<close>

theorem header_line_count:
  "length bonsoir_broadcast_h = 29
   \<and> last bonsoir_broadcast_h = ''}  // namespace bonsoir_windows''
   \<and> length (filter (\<lambda>c. c = CHR 0x0A) (file_bytes bonsoir_broadcast_h)) = 28"
proof -
  have lines: "length bonsoir_broadcast_h = 29"
    unfolding bonsoir_broadcast_h_def by simp
  have closing: "last bonsoir_broadcast_h = ''}  // namespace bonsoir_windows''"
    unfolding bonsoir_broadcast_h_def by simp
  have feeds: "length (filter (\<lambda>c. c = CHR 0x0A) (file_bytes bonsoir_broadcast_h)) = 28"
    unfolding bonsoir_broadcast_h_def file_bytes_def by simp
  from lines closing feeds show ?thesis by simp
qed

text \<open>C6, as the claim states it, fails on the source: the header is not 28 lines long.\<close>

theorem header_is_not_28_lines: "length bonsoir_broadcast_h \<noteq> 28"
  unfolding bonsoir_broadcast_h_def by simp


lemma class_overriders: "overriders BonsoirBroadcast_class = [''start'', ''dispose'']"
  unfolding overriders_def class_methods
  by (simp add: BonsoirBroadcast_ctor_def start_decl_def dispose_decl_def)

lemma class_method_names:
  "map fn_name (methods_of (c_members BonsoirBroadcast_class))
     = [''BonsoirBroadcast'', ''start'', ''dispose'']"
  unfolding class_methods
  by (simp add: BonsoirBroadcast_ctor_def start_decl_def dispose_decl_def)

lemma nonvirtual_call_stays_in_base:
  "call_through_base (BaseClass ''BonsoirAction'' [] [''start'', ''dispose''])
     BonsoirBroadcast_class ''start'' = Some (Target ''BonsoirAction'' ''start'')"
  by (simp add: call_through_base_def)

text \<open>
  C9: \<open>start\<close> and \<open>dispose\<close> are declared \<open>override\<close> in a class publicly derived
  from \<open>BonsoirAction\<close>.  So in every program C++ accepts, whatever \<open>bonsoir_action.h\<close>
  declares, \<open>BonsoirAction\<close> has both as virtual member functions, and a call of
  \<open>start\<close> or \<open>dispose\<close> through a \<open>BonsoirAction\<close> pointer or reference to a
  \<open>BonsoirBroadcast\<close> runs the function of \<open>BonsoirBroadcast\<close>.
\<close>

theorem start_and_dispose_dispatch_to_BonsoirBroadcast:
  assumes accepted: "well_formed b BonsoirBroadcast_class"
  shows "overriders BonsoirBroadcast_class = [''start'', ''dispose'']
    \<and> c_base BonsoirBroadcast_class = Some (Public, bc_name b)
    \<and> bc_name b = ''BonsoirAction''
    \<and> ''start'' \<in> set (bc_virtual b)
    \<and> ''dispose'' \<in> set (bc_virtual b)
    \<and> call_through_base b BonsoirBroadcast_class ''start''
        = Some (Target ''BonsoirBroadcast'' ''start'')
    \<and> call_through_base b BonsoirBroadcast_class ''dispose''
        = Some (Target ''BonsoirBroadcast'' ''dispose'')"
proof -
  from accepted have base: "bc_name b = ''BonsoirAction''"
    by (simp add: well_formed_def class_head)
  from accepted have virt: "''start'' \<in> set (bc_virtual b)" "''dispose'' \<in> set (bc_virtual b)"
    by (simp_all add: well_formed_def class_overriders)
  have "call_through_base b BonsoirBroadcast_class ''start''
          = Some (Target ''BonsoirBroadcast'' ''start'')"
    using virt(1) by (simp add: call_through_base_def class_method_names class_head)
  moreover have "call_through_base b BonsoirBroadcast_class ''dispose''
          = Some (Target ''BonsoirBroadcast'' ''dispose'')"
    using virt(2) by (simp add: call_through_base_def class_method_names class_head)
  ultimately show ?thesis
    using base virt class_overriders by (simp add: class_head)
qed

text \<open>
  The hypothesis of C9 holds for a base class \<open>BonsoirAction\<close> that declares
  \<open>virtual void start()\<close> and \<open>virtual void dispose()\<close>.
\<close>

theorem start_and_dispose_dispatch_witness:
  "well_formed (BaseClass ''BonsoirAction'' [''start'', ''dispose''] []) BonsoirBroadcast_class
   \<and> call_through_base (BaseClass ''BonsoirAction'' [''start'', ''dispose''] [])
        BonsoirBroadcast_class ''start'' = Some (Target ''BonsoirBroadcast'' ''start'')
   \<and> call_through_base (BaseClass ''BonsoirAction'' [''start'', ''dispose''] [])
        BonsoirBroadcast_class ''dispose'' = Some (Target ''BonsoirBroadcast'' ''dispose'')"
proof -
  have accepted:
    "well_formed (BaseClass ''BonsoirAction'' [''start'', ''dispose''] []) BonsoirBroadcast_class"
    by (simp add: well_formed_def class_head class_overriders)
  from start_and_dispose_dispatch_to_BonsoirBroadcast [OF accepted] accepted
  show ?thesis by simp
qed

text \<open>
  C10: \<open>registerCallback\<close> is a free function in namespace \<open>bonsoir_windows\<close>, not a
  member of the class.  Its parameters are \<open>(DWORD status, PVOID context,
  PDNS_SERVICE_INSTANCE instance)\<close> and it returns \<open>void\<close>, which is the function type
  \<open>DNS_SERVICE_REGISTER_COMPLETE\<close>, so it can be installed as the completion callback
  of the request.
\<close>

theorem registerCallback_matches_the_completion_callback:
  "free_functions header_decls = [([''bonsoir_windows''], registerCallback_decl)]
   \<and> fn_name registerCallback_decl = ''registerCallback''
   \<and> ''registerCallback'' \<notin> set (map fn_name (methods_of (c_members BonsoirBroadcast_class)))
   \<and> fn_params registerCallback_decl
       = [(''DWORD'', ''status''), (''PVOID'', ''context''),
          (''PDNS_SERVICE_INSTANCE'', ''instance'')]
   \<and> type_of_function registerCallback_decl = Some DNS_SERVICE_REGISTER_COMPLETE
   \<and> installable DNS_SERVICE_REGISTER_COMPLETE header_decls ''registerCallback''"
proof -
  have not_member:
    "''registerCallback'' \<notin> set (map fn_name (methods_of (c_members BonsoirBroadcast_class)))"
    unfolding class_method_names by simp
  have type: "type_of_function registerCallback_decl = Some DNS_SERVICE_REGISTER_COMPLETE"
    by (simp add: type_of_function_def registerCallback_decl_def
        DNS_SERVICE_REGISTER_COMPLETE_def)
  have name: "fn_name registerCallback_decl = ''registerCallback''"
    by (simp add: registerCallback_decl_def)
  have "installable DNS_SERVICE_REGISTER_COMPLETE header_decls ''registerCallback''"
    unfolding installable_def header_free_functions using type name by simp
  with header_free_functions not_member type name show ?thesis
    by (simp add: registerCallback_decl_def)
qed

end
